theory Spec2Isabelle
  imports Main
begin

section \<open>The rule no-undefined-or-null-comparison\<close>

text \<open>
  A shallow embedding of \<^verbatim>\<open>src/rules/noUndefinedOrNullComparisonRule.ts\<close>: the
  callback \<^verbatim>\<open>cb\<close> that \<^verbatim>\<open>walk\<close> hands to \<^verbatim>\<open>ts.forEachChild\<close>, the operand
  classification \<^verbatim>\<open>getInvalidOperands\<close>, the message factory and \<^verbatim>\<open>Rule.apply\<close>.
  The walk context is mutable in the source; here it is passed in and returned.
\<close>

subsection \<open>Syntax trees\<close>

text \<open>
  The kinds of \<^verbatim>\<open>ts.SyntaxKind\<close> that the rule or its examples mention; every other
  kind is \<open>OtherKind\<close> with its numeric code.
\<close>

datatype SyntaxKind =
    EndOfFileToken
  | NumericLiteral
  | StringLiteral
  | LessThanToken
  | GreaterThanToken
  | LessThanEqualsToken
  | GreaterThanEqualsToken
  | EqualsEqualsToken
  | ExclamationEqualsToken
  | EqualsEqualsEqualsToken
  | ExclamationEqualsEqualsToken
  | PlusToken
  | MinusToken
  | AmpersandAmpersandToken
  | BarBarToken
  | EqualsToken
  | Identifier
  | InKeyword
  | InstanceOfKeyword
  | NullKeyword
  | TypeOfKeyword
  | VoidKeyword
  | PropertyAccessExpression
  | ParenthesizedExpression
  | TypeOfExpression
  | VoidExpression
  | BinaryExpression
  | ExpressionStatement
  | SourceFileKind
  | OtherKind nat

text \<open>A source span: the start and the end offset of a node in the file.\<close>

type_synonym span = "nat \<times> nat"

text \<open>
  A node of the tree. The source narrows \<^verbatim>\<open>ts.Node\<close> with the predicates
  \<^verbatim>\<open>isBinaryExpression\<close> and \<^verbatim>\<open>ts.isIdentifier\<close> and then reads the fields of the
  narrowed interface, so the two interfaces are constructors of their own:
  \<^item> \<open>IdentifierNode\<close> is \<^verbatim>\<open>ts.Identifier\<close> with its \<^verbatim>\<open>text\<close>;
  \<^item> \<open>BinaryExpressionNode\<close> is \<^verbatim>\<open>ts.BinaryExpression\<close> with \<^verbatim>\<open>left\<close>,
    \<^verbatim>\<open>operatorToken\<close> and \<^verbatim>\<open>right\<close>;
  \<^item> \<open>TokenNode\<close> is a token or keyword, which has no children (the null literal is
    the token of kind \<open>NullKeyword\<close>);
  \<^item> \<open>OtherNode\<close> is a node of any other kind with its children in the order in which
    \<^verbatim>\<open>ts.forEachChild\<close> enumerates them.
\<close>

datatype node =
    IdentifierNode span string
  | TokenNode SyntaxKind span
  | BinaryExpressionNode span node node node
  | OtherNode SyntaxKind span "node list"

fun kind :: "node \<Rightarrow> SyntaxKind" where
  "kind (IdentifierNode sp t) = Identifier"
| "kind (TokenNode k sp) = k"
| "kind (BinaryExpressionNode sp l opr r) = BinaryExpression"
| "kind (OtherNode k sp cs) = k"

fun span :: "node \<Rightarrow> span" where
  "span (IdentifierNode sp t) = sp"
| "span (TokenNode k sp) = sp"
| "span (BinaryExpressionNode sp l opr r) = sp"
| "span (OtherNode k sp cs) = sp"

text \<open>
  The type guards \<^verbatim>\<open>ts.isIdentifier\<close> and \<^verbatim>\<open>isBinaryExpression\<close> (tsutils) compare the
  kind of the node.
\<close>

definition isIdentifier :: "node \<Rightarrow> bool" where
  "isIdentifier n = (kind n = Identifier)"

definition isBinaryExpression :: "node \<Rightarrow> bool" where
  "isBinaryExpression n = (kind n = BinaryExpression)"

text \<open>
  The fields of the narrowed interfaces. A parser builds the nodes of kind
  \<open>Identifier\<close> and \<open>BinaryExpression\<close> with the two constructors above, and the source
  reads the fields only behind the type guard. On any other node the fields have a
  value that the rule rejects: the empty text, which is not \<^verbatim>\<open>undefined\<close>, and the node
  itself, which as a node of kind \<open>BinaryExpression\<close> is no operator token.
\<close>

fun text_of :: "node \<Rightarrow> string" where
  "text_of (IdentifierNode sp t) = t"
| "text_of n = []"

fun left :: "node \<Rightarrow> node" where
  "left (BinaryExpressionNode sp l opr r) = l"
| "left n = n"

fun operatorToken :: "node \<Rightarrow> node" where
  "operatorToken (BinaryExpressionNode sp l opr r) = opr"
| "operatorToken n = n"

fun right :: "node \<Rightarrow> node" where
  "right (BinaryExpressionNode sp l opr r) = r"
| "right n = n"

text \<open>The children of a node, in the order of \<^verbatim>\<open>ts.forEachChild\<close>.\<close>

fun children :: "node \<Rightarrow> node list" where
  "children (IdentifierNode sp t) = []"
| "children (TokenNode k sp) = []"
| "children (BinaryExpressionNode sp l opr r) = [l, opr, r]"
| "children (OtherNode k sp cs) = cs"

text \<open>
  \<^verbatim>\<open>ts.SourceFile\<close>: the root of a parsed file, with its span and its children (the
  statements, then the end-of-file token). The walk starts from a source file, never
  from an expression.
\<close>

datatype SourceFile = SourceFile span "node list"

fun sourceFileNode :: "SourceFile \<Rightarrow> node" where
  "sourceFileNode (SourceFile sp cs) = OtherNode SourceFileKind sp cs"

subsection \<open>The TypeScript compiler's child iteration\<close>

text \<open>
  \<^verbatim>\<open>ts.forEachChild(node, cbNode)\<close> calls \<^verbatim>\<open>cbNode\<close> on each child in order and
  returns the first truthy result at once, without visiting the remaining children;
  when no call returns a truthy value it returns \<^verbatim>\<open>undefined\<close>. A result \<open>None\<close> is
  \<^verbatim>\<open>undefined\<close>; the state \<open>'s\<close> carries whatever the callback mutates.
\<close>

fun forEachNode :: "(node \<Rightarrow> 's \<Rightarrow> 'r option \<times> 's) \<Rightarrow> node list \<Rightarrow> 's \<Rightarrow> 'r option \<times> 's" where
  "forEachNode cbNode [] s = (None, s)"
| "forEachNode cbNode (c # cs) s =
     (case cbNode c s of
        (Some result, s') \<Rightarrow> (Some result, s')
      | (None, s') \<Rightarrow> forEachNode cbNode cs s')"

definition forEachChild :: "node \<Rightarrow> (node \<Rightarrow> 's \<Rightarrow> 'r option \<times> 's) \<Rightarrow> 's \<Rightarrow> 'r option \<times> 's" where
  "forEachChild n cbNode s = forEachNode cbNode (children n) s"

lemma forEachNode_cong:
  "cs = cs' \<Longrightarrow> s = s' \<Longrightarrow> (\<And>c t. c \<in> set cs' \<Longrightarrow> f c t = g c t)
   \<Longrightarrow> forEachNode f cs s = forEachNode g cs' s'"
proof (induction cs' arbitrary: cs s s')
  case Nil
  then show ?case by simp
next
  case (Cons c cs')
  have fg: "f c s' = g c s'"
    using Cons.prems(3) by simp
  have rest: "\<And>t. forEachNode f cs' t = forEachNode g cs' t"
    using Cons.IH Cons.prems(3) by simp
  show ?case
    using Cons.prems(1,2) fg rest by (simp split: prod.splits option.splits)
qed

lemma forEachChild_cong [fundef_cong]:
  "n = n' \<Longrightarrow> s = s' \<Longrightarrow> (\<And>c t. c \<in> set (children n') \<Longrightarrow> f c t = g c t)
   \<Longrightarrow> forEachChild n f s = forEachChild n' g s'"
  unfolding forEachChild_def by (rule forEachNode_cong) simp_all

lemma size_child: "c \<in> set (children n) \<Longrightarrow> size c < size n"
proof (cases n)
  case (OtherNode k sp cs)
  assume "c \<in> set (children n)"
  with OtherNode have "c \<in> set cs" by simp
  then have "size c \<le> size_list size cs"
    by (rule size_list_estimation') simp
  with OtherNode show ?thesis by simp
qed auto

subsection \<open>Options, findings and the walk context\<close>

record Options =
  allowNull :: bool
  allowUndefined :: bool

datatype InvalidOperand = Both | Left | Right | None'

text \<open>
  Modelled from the spec: the failure record of the lint host (\<^verbatim>\<open>Lint.RuleFailure\<close>,
  not among the sources). A Finding is a location, the source span of the offending
  operand, and a message.
\<close>

record Finding =
  location :: span
  message :: string

text \<open>
  Modelled from the spec: the walk context of the lint host (\<^verbatim>\<open>Lint.WalkContext\<close>, not
  among the sources). It holds the source file, the options of the scan and the
  findings added so far.
\<close>

record WalkContext =
  sourceFile :: SourceFile
  options :: Options
  failures :: "Finding list"

text \<open>
  Modelled from the spec: \<^verbatim>\<open>ctx.addFailureAtNode(node, failure)\<close> of the lint host, not
  among the sources. It appends a Finding whose location is the source span of the
  given node and whose message is the given string.
\<close>

definition addFailureAtNode :: "WalkContext \<Rightarrow> node \<Rightarrow> string \<Rightarrow> WalkContext" where
  "addFailureAtNode ctx n failure =
     ctx\<lparr>failures := failures ctx @ [\<lparr>location = span n, message = failure\<rparr>]\<rparr>"

text \<open>
  Modelled from the spec: \<^verbatim>\<open>Lint.getEqualsKind(token)\<close> of the lint host, not among the
  sources. It is defined for the equality-family operators, one of \<^verbatim>\<open>==\<close>, \<^verbatim>\<open>!=\<close>,
  \<^verbatim>\<open>===\<close>, \<^verbatim>\<open>!==\<close>, and \<^verbatim>\<open>undefined\<close> (\<open>None\<close>) for every other token. The walk only
  tests whether the result is defined.
\<close>

datatype EqualsKind = LooseEquals | LooseNotEquals | StrictEquals | StrictNotEquals

definition getEqualsKind :: "node \<Rightarrow> EqualsKind option" where
  "getEqualsKind n =
     (if kind n = EqualsEqualsToken then Some LooseEquals
      else if kind n = ExclamationEqualsToken then Some LooseNotEquals
      else if kind n = EqualsEqualsEqualsToken then Some StrictEquals
      else if kind n = ExclamationEqualsEqualsToken then Some StrictNotEquals
      else None)"

subsection \<open>The rule\<close>

definition OPTION_ALLOW_NULL_CHECK :: string where
  "OPTION_ALLOW_NULL_CHECK = ''allow-null-check''"

definition OPTION_ALLOW_UNDEFINED_CHECK :: string where
  "OPTION_ALLOW_UNDEFINED_CHECK = ''allow-undefined-check''"

definition FAILURE_STRING_FACTORY :: "node \<Rightarrow> string" where
  "FAILURE_STRING_FACTORY n =
     ''Comparison operand is '' @ (if kind n = NullKeyword then ''null'' else ''undefined'')"

definition getInvalidOperands :: "node \<Rightarrow> node \<Rightarrow> Options \<Rightarrow> InvalidOperand" where
  "getInvalidOperands nodeLeft nodeRight opts =
     (let leftInvalid =
            ((isIdentifier nodeLeft \<and> text_of nodeLeft = ''undefined'' \<and> \<not> allowUndefined opts) \<or>
             (kind nodeLeft = NullKeyword \<and> \<not> allowNull opts));
          rightInvalid =
            ((isIdentifier nodeRight \<and> text_of nodeRight = ''undefined'' \<and> \<not> allowUndefined opts) \<or>
             (kind nodeRight = NullKeyword \<and> \<not> allowNull opts))
      in if leftInvalid \<and> rightInvalid then Both
         else if leftInvalid then Left
         else if rightInvalid then Right
         else None')"

text \<open>
  The callback of \<^verbatim>\<open>walk\<close>. It returns what \<^verbatim>\<open>ts.forEachChild(node, cb)\<close> returns, and
  the context with the findings it added.
\<close>

function cb :: "node \<Rightarrow> WalkContext \<Rightarrow> unit option \<times> WalkContext" where
  "cb n ctx =
     (let ctx3 =
        (if isBinaryExpression n \<and> getEqualsKind (operatorToken n) \<noteq> None then
           (let invalidOperands = getInvalidOperands (left n) (right n) (options ctx);
                ctx1 = (if invalidOperands = Both \<or> invalidOperands = Left
                        then addFailureAtNode ctx (left n) (FAILURE_STRING_FACTORY (left n))
                        else ctx);
                ctx2 = (if invalidOperands = Both \<or> invalidOperands = Right
                        then addFailureAtNode ctx1 (right n) (FAILURE_STRING_FACTORY (right n))
                        else ctx1)
            in ctx2)
         else ctx)
      in forEachChild n cb ctx3)"
  by pat_completeness auto
termination
  by (relation "measure (\<lambda>(n, ctx). size n)") (auto simp: size_child)

declare cb.simps [simp del]

definition walk :: "WalkContext \<Rightarrow> unit option \<times> WalkContext" where
  "walk ctx = forEachChild (sourceFileNode (sourceFile ctx)) cb ctx"

text \<open>
  Modelled from the spec: \<^verbatim>\<open>applyWithFunction\<close> of the lint host's abstract rule, not
  among the sources. A scan builds a fresh context without findings, runs the walk
  function on it and returns the findings of the context.
\<close>

definition applyWithFunction ::
  "SourceFile \<Rightarrow> (WalkContext \<Rightarrow> unit option \<times> WalkContext) \<Rightarrow> Options \<Rightarrow> Finding list" where
  "applyWithFunction sf walkFn opts =
     failures (snd (walkFn \<lparr>sourceFile = sf, options = opts, failures = []\<rparr>))"

text \<open>\<^verbatim>\<open>Array.prototype.indexOf\<close>: the first index of the element, or \<open>-1\<close>.\<close>

fun indexOf :: "'a list \<Rightarrow> 'a \<Rightarrow> int" where
  "indexOf [] x = - 1"
| "indexOf (y # ys) x =
     (if y = x then 0 else (let i = indexOf ys x in if i = - 1 then - 1 else i + 1))"

record Rule =
  ruleArguments :: "string list"

definition apply_rule :: "Rule \<Rightarrow> SourceFile \<Rightarrow> Finding list" where
  "apply_rule rule sf =
     applyWithFunction sf walk
       \<lparr>allowNull = (indexOf (ruleArguments rule) OPTION_ALLOW_NULL_CHECK \<noteq> - 1),
        allowUndefined = (indexOf (ruleArguments rule) OPTION_ALLOW_UNDEFINED_CHECK \<noteq> - 1)\<rparr>"

subsection \<open>The walk with a log of its visits\<close>

text \<open>
  The callback once more, with the same body, on a pair of the context and the list
  of the nodes the callback has been called on so far: each call appends its node to
  the list before it goes on to the children. The list is not part of the source; it
  is there to state which nodes the walk visits and how often. Forgetting the list
  gives \<open>cb\<close> (lemma \<open>cb_logged_erase\<close>).
\<close>

function cb_logged ::
  "node \<Rightarrow> WalkContext \<times> node list \<Rightarrow> unit option \<times> WalkContext \<times> node list" where
  "cb_logged n (ctx, visited) =
     (let ctx3 =
        (if isBinaryExpression n \<and> getEqualsKind (operatorToken n) \<noteq> None then
           (let invalidOperands = getInvalidOperands (left n) (right n) (options ctx);
                ctx1 = (if invalidOperands = Both \<or> invalidOperands = Left
                        then addFailureAtNode ctx (left n) (FAILURE_STRING_FACTORY (left n))
                        else ctx);
                ctx2 = (if invalidOperands = Both \<or> invalidOperands = Right
                        then addFailureAtNode ctx1 (right n) (FAILURE_STRING_FACTORY (right n))
                        else ctx1)
            in ctx2)
         else ctx)
      in forEachChild n cb_logged (ctx3, visited @ [n]))"
  by pat_completeness auto
termination
  by (relation "measure (\<lambda>(n, s). size n)") (auto simp: size_child)

declare cb_logged.simps [simp del]

definition walk_logged ::
  "WalkContext \<times> node list \<Rightarrow> unit option \<times> WalkContext \<times> node list" where
  "walk_logged s = forEachChild (sourceFileNode (sourceFile (fst s))) cb_logged s"

subsection \<open>The specification's vocabulary\<close>

text \<open>
  The definitions of this subsection follow the words of the specification, not the
  code; the theorems below compare the two.
\<close>

text \<open>The operand is syntactically the null literal.\<close>

definition isNullLiteral :: "node \<Rightarrow> bool" where
  "isNullLiteral x = (kind x = NullKeyword)"

text \<open>The operand is the bare identifier spelled \<^verbatim>\<open>undefined\<close>.\<close>

definition isUndefinedIdentifier :: "node \<Rightarrow> bool" where
  "isUndefinedIdentifier x = (isIdentifier x \<and> text_of x = ''undefined'')"

text \<open>The operator is one of \<^verbatim>\<open>==\<close>, \<^verbatim>\<open>!=\<close>, \<^verbatim>\<open>===\<close>, \<^verbatim>\<open>!==\<close>.\<close>

definition isEqualityOperator :: "node \<Rightarrow> bool" where
  "isEqualityOperator opr =
     (kind opr = EqualsEqualsToken \<or> kind opr = ExclamationEqualsToken \<or>
      kind opr = EqualsEqualsEqualsToken \<or> kind opr = ExclamationEqualsEqualsToken)"

text \<open>
  An operand is invalid if it is the null literal and \<open>allowNull\<close> is false, or it is
  the identifier \<^verbatim>\<open>undefined\<close> and \<open>allowUndefined\<close> is false.
\<close>

definition operandInvalid :: "Options \<Rightarrow> node \<Rightarrow> bool" where
  "operandInvalid opts x =
     ((isNullLiteral x \<and> allowNull opts = False) \<or>
      (isUndefinedIdentifier x \<and> allowUndefined opts = False))"

text \<open>
  The Finding for an operand: its location is the span of the operand, its message
  names null for the null literal and undefined otherwise.
\<close>

definition findingAt :: "node \<Rightarrow> Finding" where
  "findingAt x =
     \<lparr>location = span x,
      message = (if isNullLiteral x then ''Comparison operand is null''
                 else ''Comparison operand is undefined'')\<rparr>"

text \<open>
  Depth-first pre-order: a node, then the pre-order of each of its children from left
  to right. The descendants of a source file are the pre-order of its children; the
  source file itself is not among them.
\<close>

fun preorder :: "node \<Rightarrow> node list" where
  "preorder (IdentifierNode sp t) = [IdentifierNode sp t]"
| "preorder (TokenNode k sp) = [TokenNode k sp]"
| "preorder (BinaryExpressionNode sp l opr r) =
     BinaryExpressionNode sp l opr r # preorder l @ preorder opr @ preorder r"
| "preorder (OtherNode k sp cs) = OtherNode k sp cs # concat (map preorder cs)"

fun descendants :: "SourceFile \<Rightarrow> node list" where
  "descendants (SourceFile sp cs) = concat (map preorder cs)"

text \<open>
  The operands of a node, left before right, each with the operator token of the
  enclosing binary expression; a node that is no binary expression has none. The
  operand occurrences of a file are those of its descendants in pre-order.
\<close>

fun operandsOf :: "node \<Rightarrow> (node \<times> node) list" where
  "operandsOf (BinaryExpressionNode sp l opr r) = [(opr, l), (opr, r)]"
| "operandsOf n = []"

definition operandOccurrences :: "SourceFile \<Rightarrow> (node \<times> node) list" where
  "operandOccurrences sf = concat (map operandsOf (descendants sf))"

text \<open>
  The condition of the invariant on one operand occurrence: the operand is invalid
  under the configuration and the enclosing operator is of the equality family.
\<close>

fun reportable :: "Options \<Rightarrow> node \<times> node \<Rightarrow> bool" where
  "reportable opts (opr, x) = (operandInvalid opts x \<and> isEqualityOperator opr)"

text \<open>The findings expected at one node: those of its reportable operands.\<close>

definition expectedAt :: "Options \<Rightarrow> node \<Rightarrow> Finding list" where
  "expectedAt opts n = map (findingAt \<circ> snd) (filter (reportable opts) (operandsOf n))"

text \<open>
  The same occurrences by position: the index of the enclosing node in the pre-order
  list and the side of the operand. \<open>flaggedPositions\<close> lists the reportable ones;
  \<open>before\<close> orders positions by the index of the enclosing node first and, within one
  node, the left operand before the right one.
\<close>

datatype Side = LeftSide | RightSide

fun operand :: "Side \<Rightarrow> node \<Rightarrow> node" where
  "operand LeftSide n = left n"
| "operand RightSide n = right n"

fun flaggedSides :: "Options \<Rightarrow> node \<Rightarrow> Side list" where
  "flaggedSides opts (BinaryExpressionNode sp l opr r) =
     (if reportable opts (opr, l) then [LeftSide] else []) @
     (if reportable opts (opr, r) then [RightSide] else [])"
| "flaggedSides opts n = []"

definition flaggedPositions :: "Options \<Rightarrow> node list \<Rightarrow> (nat \<times> Side) list" where
  "flaggedPositions opts ds =
     concat (map (\<lambda>(i, n). map (Pair i) (flaggedSides opts n)) (enumerate 0 ds))"

fun before :: "nat \<times> Side \<Rightarrow> nat \<times> Side \<Rightarrow> bool" where
  "before (i, s) (j, t) = (i < j \<or> (i = j \<and> s = LeftSide \<and> t = RightSide))"

text \<open>The size of a tree: the number of its nodes, the root included.\<close>

fun nodeCount :: "node \<Rightarrow> nat" where
  "nodeCount (IdentifierNode sp t) = 1"
| "nodeCount (TokenNode k sp) = 1"
| "nodeCount (BinaryExpressionNode sp l opr r) = 1 + nodeCount l + nodeCount opr + nodeCount r"
| "nodeCount (OtherNode k sp cs) = 1 + sum_list (map nodeCount cs)"

fun sourceFileSize :: "SourceFile \<Rightarrow> nat" where
  "sourceFileSize (SourceFile sp cs) = 1 + sum_list (map nodeCount cs)"

text \<open>A context with further findings appended.\<close>

definition appendFailures :: "WalkContext \<Rightarrow> Finding list \<Rightarrow> WalkContext" where
  "appendFailures ctx fs = ctx\<lparr>failures := failures ctx @ fs\<rparr>"

subsection \<open>Example programs\<close>

definition defaultOptions :: Options where
  "defaultOptions = \<lparr>allowNull = False, allowUndefined = False\<rparr>"

text \<open>A file whose only statement is the expression \<open>e\<close>.\<close>

definition program :: "node \<Rightarrow> SourceFile" where
  "program e =
     SourceFile (span e)
       [OtherNode ExpressionStatement (span e) [e],
        TokenNode EndOfFileToken (snd (span e), snd (span e))]"

text \<open>\<^verbatim>\<open>(a == null) !== undefined\<close>\<close>

definition nestedExample :: node where
  "nestedExample =
     BinaryExpressionNode (0, 25)
       (OtherNode ParenthesizedExpression (0, 11)
          [BinaryExpressionNode (1, 10)
             (IdentifierNode (1, 2) ''a'')
             (TokenNode EqualsEqualsToken (3, 5))
             (TokenNode NullKeyword (6, 10))])
       (TokenNode ExclamationEqualsEqualsToken (12, 15))
       (IdentifierNode (16, 25) ''undefined'')"

text \<open>\<^verbatim>\<open>null == undefined\<close>\<close>

definition nullEqualsUndefined :: node where
  "nullEqualsUndefined =
     BinaryExpressionNode (0, 17) (TokenNode NullKeyword (0, 4))
       (TokenNode EqualsEqualsToken (5, 7)) (IdentifierNode (8, 17) ''undefined'')"

text \<open>\<^verbatim>\<open>a < null\<close>\<close>

definition aLessThanNull :: node where
  "aLessThanNull =
     BinaryExpressionNode (0, 8) (IdentifierNode (0, 1) ''a'')
       (TokenNode LessThanToken (2, 3)) (TokenNode NullKeyword (4, 8))"

text \<open>\<^verbatim>\<open>(a == null) == b\<close>\<close>

definition nestedInLeft :: node where
  "nestedInLeft =
     BinaryExpressionNode (0, 16)
       (OtherNode ParenthesizedExpression (0, 11)
          [BinaryExpressionNode (1, 10)
             (IdentifierNode (1, 2) ''a'')
             (TokenNode EqualsEqualsToken (3, 5))
             (TokenNode NullKeyword (6, 10))])
       (TokenNode EqualsEqualsToken (12, 14))
       (IdentifierNode (15, 16) ''b'')"

section \<open>Properties\<close>

subsection \<open>One call of the callback\<close>

lemma preorder_children: "preorder n = n # concat (map preorder (children n))"
  by (cases n) simp_all

lemma getEqualsKind_defined: "(getEqualsKind opr \<noteq> None) = isEqualityOperator opr"
  by (simp add: getEqualsKind_def isEqualityOperator_def)

lemma FAILURE_STRING_FACTORY_message:
  "FAILURE_STRING_FACTORY x = message (findingAt x)"
  by (simp add: FAILURE_STRING_FACTORY_def findingAt_def isNullLiteral_def)

lemma appendFailures_simps [simp]:
  "options (appendFailures ctx fs) = options ctx"
  "sourceFile (appendFailures ctx fs) = sourceFile ctx"
  "failures (appendFailures ctx fs) = failures ctx @ fs"
  "appendFailures ctx [] = ctx"
  "appendFailures (appendFailures ctx fs) gs = appendFailures ctx (fs @ gs)"
  by (simp_all add: appendFailures_def)

lemma addFailureAtNode_append:
  "addFailureAtNode ctx x (FAILURE_STRING_FACTORY x) = appendFailures ctx [findingAt x]"
  by (simp add: addFailureAtNode_def appendFailures_def FAILURE_STRING_FACTORY_message findingAt_def)

text \<open>The classification of the source agrees with the specification's per-operand rule.\<close>

lemma getInvalidOperands_spec:
  "getInvalidOperands l r opts =
     (if operandInvalid opts l \<and> operandInvalid opts r then Both
      else if operandInvalid opts l then Left
      else if operandInvalid opts r then Right
      else None')"
proof -
  have inv: "((isIdentifier x \<and> text_of x = ''undefined'' \<and> \<not> allowUndefined opts) \<or>
              (kind x = NullKeyword \<and> \<not> allowNull opts)) = operandInvalid opts x" for x
    by (auto simp: operandInvalid_def isNullLiteral_def isUndefinedIdentifier_def)
  show ?thesis
    unfolding getInvalidOperands_def Let_def inv ..
qed

lemma expectedAt_binary:
  "expectedAt opts (BinaryExpressionNode sp l opr r) =
     (if isEqualityOperator opr
      then (if operandInvalid opts l then [findingAt l] else []) @
           (if operandInvalid opts r then [findingAt r] else [])
      else [])"
  by (simp add: expectedAt_def)

lemma concat_map_concat:
  "concat (map f (concat xss)) = concat (map (\<lambda>xs. concat (map f xs)) xss)"
  by (induction xss) simp_all

text \<open>One call of the callback: the findings of the node itself, then its children.\<close>

lemma cb_own:
  "cb n ctx = forEachChild n cb (appendFailures ctx (expectedAt (options ctx) n))"
proof (cases n)
  case (BinaryExpressionNode sp l opr r)
  have sel: "isBinaryExpression n" "left n = l" "right n = r" "operatorToken n = opr"
    by (simp_all add: BinaryExpressionNode isBinaryExpression_def)
  have exp: "expectedAt (options ctx) n =
     (if isEqualityOperator opr
      then (if operandInvalid (options ctx) l then [findingAt l] else []) @
           (if operandInvalid (options ctx) r then [findingAt r] else [])
      else [])"
    by (simp add: BinaryExpressionNode expectedAt_binary)
  show ?thesis
    by (subst cb.simps;
        cases "isEqualityOperator opr"; cases "operandInvalid (options ctx) l";
        cases "operandInvalid (options ctx) r")
      (simp_all only: sel getEqualsKind_defined getInvalidOperands_spec addFailureAtNode_append
         exp Let_def appendFailures_simps InvalidOperand.simps simp_thms if_True if_False
         append.simps)
qed (subst cb.simps, simp add: expectedAt_def isBinaryExpression_def getEqualsKind_def
      cong: conj_cong)+

lemma cb_logged_own:
  "cb_logged n (ctx, vs) =
     forEachChild n cb_logged (appendFailures ctx (expectedAt (options ctx) n), vs @ [n])"
proof (cases n)
  case (BinaryExpressionNode sp l opr r)
  have sel: "isBinaryExpression n" "left n = l" "right n = r" "operatorToken n = opr"
    by (simp_all add: BinaryExpressionNode isBinaryExpression_def)
  have exp: "expectedAt (options ctx) n =
     (if isEqualityOperator opr
      then (if operandInvalid (options ctx) l then [findingAt l] else []) @
           (if operandInvalid (options ctx) r then [findingAt r] else [])
      else [])"
    by (simp add: BinaryExpressionNode expectedAt_binary)
  show ?thesis
    by (subst cb_logged.simps;
        cases "isEqualityOperator opr"; cases "operandInvalid (options ctx) l";
        cases "operandInvalid (options ctx) r")
      (simp_all only: sel getEqualsKind_defined getInvalidOperands_spec addFailureAtNode_append
         exp Let_def appendFailures_simps InvalidOperand.simps simp_thms if_True if_False
         append.simps)
qed (subst cb_logged.simps, simp add: expectedAt_def isBinaryExpression_def getEqualsKind_def
      cong: conj_cong)+

subsection \<open>The walk in terms of the pre-order of the tree\<close>

lemma forEachNode_append:
  assumes "\<And>c ctx. c \<in> set cs \<Longrightarrow> cb c ctx = (None, appendFailures ctx (F (options ctx) c))"
  shows "forEachNode cb cs ctx = (None, appendFailures ctx (concat (map (F (options ctx)) cs)))"
  using assms
proof (induction cs arbitrary: ctx)
  case Nil
  then show ?case by simp
next
  case (Cons c cs)
  then show ?case by simp
qed

text \<open>
  The callback never returns a truthy value, so no sibling is skipped, and it appends
  the expected findings of the nodes of the subtree in pre-order.
\<close>

lemma cb_preorder:
  "cb n ctx = (None, appendFailures ctx (concat (map (expectedAt (options ctx)) (preorder n))))"
proof (induction n arbitrary: ctx rule: measure_induct_rule [where f = size])
  case (less n)
  have kids: "\<And>c ctx. c \<in> set (children n) \<Longrightarrow>
      cb c ctx = (None, appendFailures ctx (concat (map (expectedAt (options ctx)) (preorder c))))"
    using less.IH size_child by blast
  have "cb n ctx = forEachNode cb (children n) (appendFailures ctx (expectedAt (options ctx) n))"
    by (simp add: cb_own [of n ctx] forEachChild_def)
  also have "\<dots> = (None, appendFailures (appendFailures ctx (expectedAt (options ctx) n))
      (concat (map (\<lambda>c. concat (map (expectedAt (options ctx)) (preorder c))) (children n))))"
    using forEachNode_append [where F = "\<lambda>opts c. concat (map (expectedAt opts) (preorder c))", OF kids]
    by simp
  also have "\<dots> = (None, appendFailures ctx (concat (map (expectedAt (options ctx)) (preorder n))))"
    by (subst (2) preorder_children) (simp add: concat_map_concat comp_def)
  finally show ?case .
qed

lemma walk_descendants:
  "walk ctx =
     (None, appendFailures ctx (concat (map (expectedAt (options ctx)) (descendants (sourceFile ctx)))))"
proof (cases "sourceFile ctx")
  case (SourceFile sp cs)
  have "forEachNode cb cs ctx =
      (None, appendFailures ctx (concat (map (\<lambda>c. concat (map (expectedAt (options ctx)) (preorder c))) cs)))"
    by (rule forEachNode_append [where F = "\<lambda>opts c. concat (map (expectedAt opts) (preorder c))"])
       (rule cb_preorder)
  then show ?thesis
    by (simp add: SourceFile walk_def forEachChild_def concat_map_concat comp_def)
qed

lemma scan_descendants:
  "applyWithFunction sf walk opts = concat (map (expectedAt opts) (descendants sf))"
  by (simp add: applyWithFunction_def walk_descendants)

lemma expectedAt_occurrences:
  "concat (map (expectedAt opts) ds) =
     map (findingAt \<circ> snd) (filter (reportable opts) (concat (map operandsOf ds)))"
  by (induction ds) (simp_all add: expectedAt_def)

text \<open>The rules that evaluate a scan of a concrete tree by running the callback.\<close>

lemmas eval_scan = applyWithFunction_def walk_def program_def defaultOptions_def forEachChild_def
  cb.simps isBinaryExpression_def isIdentifier_def getInvalidOperands_def addFailureAtNode_def
  FAILURE_STRING_FACTORY_def getEqualsKind_def

subsection \<open>Positions in the pre-order list\<close>

lemma flaggedSides_expected:
  "map (\<lambda>s. findingAt (operand s n)) (flaggedSides opts n) = expectedAt opts n"
  by (cases n) (simp_all add: expectedAt_def)

lemma positions_findings:
  "map (\<lambda>(i, s). findingAt (operand s ((pre @ ds) ! i)))
     (concat (map (\<lambda>(i, n). map (Pair i) (flaggedSides opts n)) (enumerate (length pre) ds)))
   = concat (map (expectedAt opts) ds)"
proof (induction ds arbitrary: pre)
  case Nil
  then show ?case by simp
next
  case (Cons d ds)
  have "map (\<lambda>(i, s). findingAt (operand s (((pre @ [d]) @ ds) ! i)))
     (concat (map (\<lambda>(i, n). map (Pair i) (flaggedSides opts n)) (enumerate (length (pre @ [d])) ds)))
   = concat (map (expectedAt opts) ds)"
    by (rule Cons.IH)
  then show ?case
    by (simp add: comp_def flaggedSides_expected)
qed

lemma flaggedSides_sorted: "sorted_wrt before (map (Pair i) (flaggedSides opts n))"
  by (cases n) simp_all

lemma positions_lower:
  assumes "p \<in> set (concat (map (\<lambda>(i, n). map (Pair i) (flaggedSides opts n)) (enumerate k ds)))"
  shows "k \<le> fst p"
proof -
  from assms obtain i n where "(i, n) \<in> set (enumerate k ds)" and "fst p = i"
    by auto
  then show ?thesis
    by (simp add: in_set_enumerate_eq)
qed

lemma positions_sorted:
  "sorted_wrt before
     (concat (map (\<lambda>(i, n). map (Pair i) (flaggedSides opts n)) (enumerate k ds)))"
proof (induction ds arbitrary: k)
  case Nil
  then show ?case by simp
next
  case (Cons d ds)
  define rest where
    "rest = concat (map (\<lambda>(i, n). map (Pair i) (flaggedSides opts n)) (enumerate (Suc k) ds))"
  have later: "before (k, s) q" if "q \<in> set rest" for s q
  proof -
    from that have "Suc k \<le> fst q"
      unfolding rest_def by (rule positions_lower)
    then show ?thesis by (cases q) simp
  qed
  have cross: "\<forall>x \<in> set (map (Pair k) (flaggedSides opts d)). \<forall>y \<in> set rest. before x y"
    using later by (simp del: before.simps)
  have sorted_rest: "sorted_wrt before rest"
    unfolding rest_def by (rule Cons.IH)
  have "concat (map (\<lambda>(i, n). map (Pair i) (flaggedSides opts n)) (enumerate k (d # ds))) =
      map (Pair k) (flaggedSides opts d) @ rest"
    by (simp add: rest_def)
  then show ?case
    using sorted_rest cross flaggedSides_sorted [of k opts d]
    by (simp only: sorted_wrt_append simp_thms)
qed

lemma positions_valid:
  assumes "(i, s) \<in> set (flaggedPositions opts ds)"
  shows "i < length ds \<and> isBinaryExpression (ds ! i) \<and>
         reportable opts (operatorToken (ds ! i), operand s (ds ! i))"
proof -
  from assms obtain n where n: "(i, n) \<in> set (enumerate 0 ds)" and s: "s \<in> set (flaggedSides opts n)"
    by (auto simp: flaggedPositions_def)
  from n have "i < length ds" "ds ! i = n"
    by (simp_all add: in_set_enumerate_eq)
  with s show ?thesis
    by (cases n) (auto simp: isBinaryExpression_def split: if_splits)
qed

subsection \<open>The logged walk\<close>

lemma forEachNode_logged:
  assumes "\<And>c ctx vs. c \<in> set cs \<Longrightarrow>
     cb_logged c (ctx, vs) = (None, snd (cb c ctx), vs @ preorder c)"
  shows "forEachNode cb_logged cs (ctx, vs) =
     (None, snd (forEachNode cb cs ctx), vs @ concat (map preorder cs))"
  using assms
proof (induction cs arbitrary: ctx vs)
  case Nil
  then show ?case by simp
next
  case (Cons c cs)
  then show ?case by (simp add: cb_preorder)
qed

lemma cb_logged_erase:
  "cb_logged n (ctx, vs) = (None, snd (cb n ctx), vs @ preorder n)"
proof (induction n arbitrary: ctx vs rule: measure_induct_rule [where f = size])
  case (less n)
  have kids: "\<And>c ctx vs. c \<in> set (children n) \<Longrightarrow>
      cb_logged c (ctx, vs) = (None, snd (cb c ctx), vs @ preorder c)"
    using less.IH size_child by blast
  have "cb_logged n (ctx, vs) =
      forEachNode cb_logged (children n) (appendFailures ctx (expectedAt (options ctx) n), vs @ [n])"
    by (simp add: cb_logged_own forEachChild_def)
  also have "\<dots> =
      (None, snd (forEachNode cb (children n) (appendFailures ctx (expectedAt (options ctx) n))),
       (vs @ [n]) @ concat (map preorder (children n)))"
    by (rule forEachNode_logged [OF kids])
  also have "\<dots> = (None, snd (cb n ctx), vs @ preorder n)"
    by (simp add: cb_own [of n ctx] preorder_children [of n] forEachChild_def)
  finally show ?case .
qed

lemma length_preorder: "length (preorder n) = nodeCount n"
proof (induction n)
  case (OtherNode k sp cs)
  then have "sum_list (map (\<lambda>c. length (preorder c)) cs) = sum_list (map nodeCount cs)"
    by (simp cong: map_cong)
  then show ?case
    by (simp add: length_concat comp_def)
qed simp_all

lemma length_descendants: "Suc (length (descendants sf)) = sourceFileSize sf"
  by (cases sf) (simp add: length_concat comp_def length_preorder)

lemma length_expectedAt: "length (expectedAt opts n) \<le> 2"
  by (cases n) (simp_all add: expectedAt_def)

lemma length_concat_bound:
  "(\<And>x. length (f x) \<le> k) \<Longrightarrow> length (concat (map f xs)) \<le> k * length xs"
  by (induction xs) (simp_all add: add_le_mono)

subsection \<open>Options\<close>

lemma indexOf_lower: "- 1 \<le> indexOf xs x"
  by (induction xs) (simp_all add: Let_def)

lemma indexOf_member: "(indexOf xs x \<noteq> - 1) = (x \<in> set xs)"
proof (induction xs)
  case Nil
  then show ?case by simp
next
  case (Cons y ys)
  have "indexOf ys x + 1 \<noteq> - 1"
    using indexOf_lower [of ys x] by arith
  with Cons show ?case
    by (auto simp: Let_def)
qed

lemma null_not_undefined_identifier: "isNullLiteral x \<Longrightarrow> \<not> isUndefinedIdentifier x"
  by (simp add: isNullLiteral_def isUndefinedIdentifier_def isIdentifier_def)

lemma message_null: "(message (findingAt x) = ''Comparison operand is null'') = isNullLiteral x"
  by (simp add: findingAt_def)

lemma message_undefined:
  "(message (findingAt x) = ''Comparison operand is undefined'') = (\<not> isNullLiteral x)"
  by (simp add: findingAt_def)

lemma expectedAt_allowNull:
  "expectedAt \<lparr>allowNull = True, allowUndefined = False\<rparr> n =
     filter (\<lambda>f. message f \<noteq> ''Comparison operand is null'') (expectedAt defaultOptions n)"
  using null_not_undefined_identifier
  by (cases n) (auto simp: expectedAt_def defaultOptions_def operandInvalid_def message_null)

lemma expectedAt_allowUndefined:
  "expectedAt \<lparr>allowNull = False, allowUndefined = True\<rparr> n =
     filter (\<lambda>f. message f \<noteq> ''Comparison operand is undefined'') (expectedAt defaultOptions n)"
  using null_not_undefined_identifier
  by (cases n) (auto simp: expectedAt_def defaultOptions_def operandInvalid_def message_undefined)

lemma reportable_allowNull:
  "reportable \<lparr>allowNull = True, allowUndefined = False\<rparr> =
     (\<lambda>p. reportable defaultOptions p \<and> \<not> isNullLiteral (snd p))"
proof
  fix p
  show "reportable \<lparr>allowNull = True, allowUndefined = False\<rparr> p =
      (reportable defaultOptions p \<and> \<not> isNullLiteral (snd p))"
    using null_not_undefined_identifier [of "snd p"]
    by (cases p) (auto simp: operandInvalid_def defaultOptions_def)
qed

lemma reportable_allowUndefined:
  "reportable \<lparr>allowNull = False, allowUndefined = True\<rparr> =
     (\<lambda>p. reportable defaultOptions p \<and> \<not> isUndefinedIdentifier (snd p))"
proof
  fix p
  show "reportable \<lparr>allowNull = False, allowUndefined = True\<rparr> p =
      (reportable defaultOptions p \<and> \<not> isUndefinedIdentifier (snd p))"
    using null_not_undefined_identifier [of "snd p"]
    by (cases p) (auto simp: operandInvalid_def defaultOptions_def)
qed

subsection \<open>The claims\<close>

text \<open>
  C1. For every source file and configuration, the findings of the scan are exactly
  the findings of the reportable operand occurrences of the tree, one each: an operand
  of a binary expression gets a Finding if and only if it is the null literal or the
  identifier \<^verbatim>\<open>undefined\<close>, its allowance flag is false, and the operator of the
  enclosing binary expression is one of \<^verbatim>\<open>==\<close>, \<^verbatim>\<open>!=\<close>, \<^verbatim>\<open>===\<close>, \<^verbatim>\<open>!==\<close>.
\<close>

theorem scan_reports_exactly_reportable_operands:
  "applyWithFunction sf walk opts =
     map (findingAt \<circ> snd) (filter (reportable opts) (operandOccurrences sf))"
proof -
  have "applyWithFunction sf walk opts = concat (map (expectedAt opts) (descendants sf))"
    by (rule scan_descendants)
  also have "\<dots> =
      map (findingAt \<circ> snd) (filter (reportable opts) (concat (map operandsOf (descendants sf))))"
    by (rule expectedAt_occurrences)
  finally show ?thesis
    by (simp only: operandOccurrences_def)
qed

theorem scan_reports_exactly_reportable_operands_witness:
  "applyWithFunction (program nestedExample) walk defaultOptions =
     [\<lparr>location = (16, 25), message = ''Comparison operand is undefined''\<rparr>,
      \<lparr>location = (6, 10), message = ''Comparison operand is null''\<rparr>]"
  using scan_reports_exactly_reportable_operands [of "program nestedExample" defaultOptions]
  by (simp add: program_def nestedExample_def defaultOptions_def operandOccurrences_def
      operandInvalid_def isNullLiteral_def isUndefinedIdentifier_def isIdentifier_def isEqualityOperator_def
      findingAt_def)

text \<open>
  C2. For every source file and configuration, the findings are those of the
  reportable operand positions, and these positions are listed in strictly ascending
  order: by the pre-order index of the enclosing binary expression and, within one
  binary expression, the left operand before the right one. Every position names a
  binary expression among the descendants of the root.
\<close>

theorem findings_follow_preorder_left_before_right:
  "applyWithFunction sf walk opts =
     map (\<lambda>(i, s). findingAt (operand s (descendants sf ! i)))
       (flaggedPositions opts (descendants sf))
   \<and> sorted_wrt before (flaggedPositions opts (descendants sf))
   \<and> (\<forall>(i, s) \<in> set (flaggedPositions opts (descendants sf)).
        i < length (descendants sf) \<and> isBinaryExpression (descendants sf ! i))"
proof (intro conjI)
  show "applyWithFunction sf walk opts =
     map (\<lambda>(i, s). findingAt (operand s (descendants sf ! i)))
       (flaggedPositions opts (descendants sf))"
    using positions_findings [of "[]" "descendants sf" opts]
    by (simp add: scan_descendants flaggedPositions_def)
  show "sorted_wrt before (flaggedPositions opts (descendants sf))"
    using positions_sorted [of opts 0 "descendants sf"] by (simp add: flaggedPositions_def)
  show "\<forall>(i, s) \<in> set (flaggedPositions opts (descendants sf)).
        i < length (descendants sf) \<and> isBinaryExpression (descendants sf ! i)"
    using positions_valid by blast
qed

theorem findings_follow_preorder_left_before_right_witness:
  "flaggedPositions defaultOptions (descendants (program nestedExample)) =
     [(1, RightSide), (3, RightSide)]
   \<and> sorted_wrt before [(1, RightSide), (3, RightSide)]
   \<and> applyWithFunction (program nestedExample) walk defaultOptions =
     [\<lparr>location = (16, 25), message = ''Comparison operand is undefined''\<rparr>,
      \<lparr>location = (6, 10), message = ''Comparison operand is null''\<rparr>]"
proof -
  have pos: "flaggedPositions defaultOptions (descendants (program nestedExample)) =
      [(1, RightSide), (3, RightSide)]"
    by code_simp
  have d1: "descendants (program nestedExample) ! 1 = nestedExample"
    by code_simp
  have d3: "descendants (program nestedExample) ! 3 =
      BinaryExpressionNode (1, 10) (IdentifierNode (1, 2) ''a'')
        (TokenNode EqualsEqualsToken (3, 5)) (TokenNode NullKeyword (6, 10))"
    by code_simp
  have raw: "applyWithFunction (program nestedExample) walk defaultOptions =
      [findingAt (right (descendants (program nestedExample) ! 1)),
       findingAt (right (descendants (program nestedExample) ! 3))]"
    and ordered: "sorted_wrt before [(1, RightSide), (3, RightSide)]"
    using findings_follow_preorder_left_before_right [of "program nestedExample" defaultOptions]
    unfolding pos by simp_all
  have scan: "applyWithFunction (program nestedExample) walk defaultOptions =
     [\<lparr>location = (16, 25), message = ''Comparison operand is undefined''\<rparr>,
      \<lparr>location = (6, 10), message = ''Comparison operand is null''\<rparr>]"
    using raw unfolding d1 d3 by (simp add: nestedExample_def findingAt_def isNullLiteral_def)
  from pos ordered scan show ?thesis
    by blast
qed

text \<open>
  C3. The expression \<^verbatim>\<open>null == undefined\<close>, scanned with both allowance flags false,
  yields exactly two findings: the one on the left operand \<^verbatim>\<open>null\<close>, then the one on
  the right operand \<^verbatim>\<open>undefined\<close>.
\<close>

theorem null_equals_undefined_two_findings:
  "applyWithFunction
     (program (BinaryExpressionNode sp (TokenNode NullKeyword spl)
        (TokenNode EqualsEqualsToken spo) (IdentifierNode spr ''undefined'')))
     walk defaultOptions =
   [\<lparr>location = spl, message = ''Comparison operand is null''\<rparr>,
    \<lparr>location = spr, message = ''Comparison operand is undefined''\<rparr>]"
  by (simp add: eval_scan)

theorem null_equals_undefined_two_findings_witness:
  "applyWithFunction (program nullEqualsUndefined) walk defaultOptions =
   [\<lparr>location = (0, 4), message = ''Comparison operand is null''\<rparr>,
    \<lparr>location = (8, 17), message = ''Comparison operand is undefined''\<rparr>]"
  unfolding nullEqualsUndefined_def by (rule null_equals_undefined_two_findings)

text \<open>
  C4. Each allowance flag suppresses its own value and nothing else. With
  \<open>allowNull\<close> true, \<^verbatim>\<open>a == null\<close> yields no finding and \<^verbatim>\<open>a == undefined\<close> still yields
  one; with \<open>allowUndefined\<close> true, \<^verbatim>\<open>a == undefined\<close> yields no finding and
  \<^verbatim>\<open>a == null\<close> still yields one.
\<close>

theorem allowance_flag_suppresses_only_its_value:
  "applyWithFunction
     (program (BinaryExpressionNode sp (IdentifierNode spa ''a'')
        (TokenNode EqualsEqualsToken spo) (TokenNode NullKeyword spn)))
     walk \<lparr>allowNull = True, allowUndefined = False\<rparr> = []
   \<and> applyWithFunction
     (program (BinaryExpressionNode sp (IdentifierNode spa ''a'')
        (TokenNode EqualsEqualsToken spo) (IdentifierNode spu ''undefined'')))
     walk \<lparr>allowNull = True, allowUndefined = False\<rparr> =
     [\<lparr>location = spu, message = ''Comparison operand is undefined''\<rparr>]
   \<and> applyWithFunction
     (program (BinaryExpressionNode sp (IdentifierNode spa ''a'')
        (TokenNode EqualsEqualsToken spo) (IdentifierNode spu ''undefined'')))
     walk \<lparr>allowNull = False, allowUndefined = True\<rparr> = []
   \<and> applyWithFunction
     (program (BinaryExpressionNode sp (IdentifierNode spa ''a'')
        (TokenNode EqualsEqualsToken spo) (TokenNode NullKeyword spn)))
     walk \<lparr>allowNull = False, allowUndefined = True\<rparr> =
     [\<lparr>location = spn, message = ''Comparison operand is null''\<rparr>]"
  by (simp add: eval_scan)

theorem allowance_flag_suppresses_only_its_value_witness:
  "applyWithFunction
     (program (BinaryExpressionNode (0, 9) (IdentifierNode (0, 1) ''a'')
        (TokenNode EqualsEqualsToken (2, 4)) (TokenNode NullKeyword (5, 9))))
     walk \<lparr>allowNull = True, allowUndefined = False\<rparr> = []
   \<and> applyWithFunction
     (program (BinaryExpressionNode (0, 9) (IdentifierNode (0, 1) ''a'')
        (TokenNode EqualsEqualsToken (2, 4)) (IdentifierNode (5, 14) ''undefined'')))
     walk \<lparr>allowNull = True, allowUndefined = False\<rparr> =
     [\<lparr>location = (5, 14), message = ''Comparison operand is undefined''\<rparr>]
   \<and> applyWithFunction
     (program (BinaryExpressionNode (0, 9) (IdentifierNode (0, 1) ''a'')
        (TokenNode EqualsEqualsToken (2, 4)) (IdentifierNode (5, 14) ''undefined'')))
     walk \<lparr>allowNull = False, allowUndefined = True\<rparr> = []
   \<and> applyWithFunction
     (program (BinaryExpressionNode (0, 9) (IdentifierNode (0, 1) ''a'')
        (TokenNode EqualsEqualsToken (2, 4)) (TokenNode NullKeyword (5, 9))))
     walk \<lparr>allowNull = False, allowUndefined = True\<rparr> =
     [\<lparr>location = (5, 9), message = ''Comparison operand is null''\<rparr>]"
  by (rule allowance_flag_suppresses_only_its_value)

text \<open>
  C5. A binary expression whose operator is none of \<^verbatim>\<open>==\<close>, \<^verbatim>\<open>!=\<close>, \<^verbatim>\<open>===\<close>, \<^verbatim>\<open>!==\<close>
  is not classified: the callback adds no finding for its operands and only goes on to
  its children. The expression \<^verbatim>\<open>a < null\<close> yields no finding under any configuration.
\<close>

theorem other_operators_not_classified:
  "(\<not> isEqualityOperator opr \<longrightarrow>
      cb (BinaryExpressionNode sp l opr r) ctx =
      forEachChild (BinaryExpressionNode sp l opr r) cb ctx)
   \<and> applyWithFunction
     (program (BinaryExpressionNode sp' (IdentifierNode spa ''a'')
        (TokenNode LessThanToken spo) (TokenNode NullKeyword spn)))
     walk opts = []"
proof
  show "\<not> isEqualityOperator opr \<longrightarrow>
      cb (BinaryExpressionNode sp l opr r) ctx =
      forEachChild (BinaryExpressionNode sp l opr r) cb ctx"
    by (subst cb.simps) (simp add: getEqualsKind_def isEqualityOperator_def)
  show "applyWithFunction
     (program (BinaryExpressionNode sp' (IdentifierNode spa ''a'')
        (TokenNode LessThanToken spo) (TokenNode NullKeyword spn)))
     walk opts = []"
    by (simp add: eval_scan)
qed

theorem other_operators_not_classified_witness:
  "\<not> isEqualityOperator (TokenNode LessThanToken (2, 3))
   \<and> cb aLessThanNull \<lparr>sourceFile = program aLessThanNull, options = defaultOptions, failures = []\<rparr> =
     (None, \<lparr>sourceFile = program aLessThanNull, options = defaultOptions, failures = []\<rparr>)
   \<and> applyWithFunction (program aLessThanNull) walk defaultOptions = []"
proof -
  have op: "\<not> isEqualityOperator (TokenNode LessThanToken (2, 3))"
    by (simp add: isEqualityOperator_def)
  have leaves: "forEachChild aLessThanNull cb ctx = (None, ctx)" for ctx
    by (simp add: aLessThanNull_def forEachChild_def cb.simps isBinaryExpression_def)
  show ?thesis
    using op leaves
      other_operators_not_classified [where opr = "TokenNode LessThanToken (2, 3)" and sp = "(0, 8)"
        and l = "IdentifierNode (0, 1) ''a''" and r = "TokenNode NullKeyword (4, 8)"
        and ctx = "\<lparr>sourceFile = program aLessThanNull, options = defaultOptions, failures = []\<rparr>"
        and sp' = "(0, 8)" and spa = "(0, 1)" and spo = "(2, 3)" and spn = "(4, 8)"
        and opts = defaultOptions]
    by (simp add: aLessThanNull_def)
qed

text \<open>
  C6. The traversal goes on into the children of a matched binary expression. For
  \<^verbatim>\<open>(a == null) == b\<close> with both allowance flags false the scan yields exactly one
  finding, on the inner \<^verbatim>\<open>null\<close>, and none for the operands of the outer expression.
  In general the callback, on a binary expression, adds the findings of the expression
  itself and then runs on its children; and since a call of the callback never returns
  a truthy value, the iteration over a list of children goes on to the remaining
  children after each call.
\<close>

theorem traversal_enters_matched_expression:
  "applyWithFunction
     (program (BinaryExpressionNode sp
        (OtherNode ParenthesizedExpression spp
           [BinaryExpressionNode spi (IdentifierNode spa ''a'')
              (TokenNode EqualsEqualsToken spo') (TokenNode NullKeyword spn)])
        (TokenNode EqualsEqualsToken spo) (IdentifierNode spb ''b'')))
     walk defaultOptions =
   [\<lparr>location = spn, message = ''Comparison operand is null''\<rparr>]
   \<and> cb (BinaryExpressionNode spx l opr r) ctx =
     forEachChild (BinaryExpressionNode spx l opr r) cb
       (ctx\<lparr>failures := failures ctx @ expectedAt (options ctx) (BinaryExpressionNode spx l opr r)\<rparr>)
   \<and> forEachNode cb (c # cs) ctx' = forEachNode cb cs (snd (cb c ctx'))"
proof (intro conjI)
  show "forEachNode cb (c # cs) ctx' = forEachNode cb cs (snd (cb c ctx'))"
    by (simp add: cb_preorder)
  show "cb (BinaryExpressionNode spx l opr r) ctx =
     forEachChild (BinaryExpressionNode spx l opr r) cb
       (ctx\<lparr>failures := failures ctx @ expectedAt (options ctx) (BinaryExpressionNode spx l opr r)\<rparr>)"
    using cb_own [of "BinaryExpressionNode spx l opr r" ctx] by (simp only: appendFailures_def)
qed (simp add: eval_scan)

theorem traversal_enters_matched_expression_witness:
  "applyWithFunction (program nestedInLeft) walk defaultOptions =
     [\<lparr>location = (6, 10), message = ''Comparison operand is null''\<rparr>]
   \<and> cb nestedExample \<lparr>sourceFile = program nestedExample, options = defaultOptions, failures = []\<rparr> =
     forEachChild nestedExample cb
       \<lparr>sourceFile = program nestedExample, options = defaultOptions,
        failures = [\<lparr>location = (16, 25), message = ''Comparison operand is undefined''\<rparr>]\<rparr>
   \<and> forEachNode cb [nestedInLeft, aLessThanNull]
       \<lparr>sourceFile = program nestedExample, options = defaultOptions, failures = []\<rparr> =
     forEachNode cb [aLessThanNull]
       \<lparr>sourceFile = program nestedExample, options = defaultOptions,
        failures = [\<lparr>location = (6, 10), message = ''Comparison operand is null''\<rparr>]\<rparr>"
proof -
  let ?ctx = "\<lparr>sourceFile = program nestedExample, options = defaultOptions, failures = []\<rparr>"
  have own: "expectedAt defaultOptions nestedExample =
      [\<lparr>location = (16, 25), message = ''Comparison operand is undefined''\<rparr>]"
    by (simp add: nestedExample_def expectedAt_binary defaultOptions_def operandInvalid_def
        isNullLiteral_def isUndefinedIdentifier_def isIdentifier_def isEqualityOperator_def findingAt_def)
  have inner: "snd (cb nestedInLeft ?ctx) =
      \<lparr>sourceFile = program nestedExample, options = defaultOptions,
       failures = [\<lparr>location = (6, 10), message = ''Comparison operand is null''\<rparr>]\<rparr>"
    by (simp add: nestedInLeft_def eval_scan)
  note inst = traversal_enters_matched_expression
      [where sp = "(0, 16)" and spp = "(0, 11)" and spi = "(1, 10)" and spa = "(1, 2)"
        and spo' = "(3, 5)" and spn = "(6, 10)" and spo = "(12, 14)" and spb = "(15, 16)"
        and spx = "(0, 25)"
        and l = "OtherNode ParenthesizedExpression (0, 11)
          [BinaryExpressionNode (1, 10) (IdentifierNode (1, 2) ''a'')
             (TokenNode EqualsEqualsToken (3, 5)) (TokenNode NullKeyword (6, 10))]"
        and opr = "TokenNode ExclamationEqualsEqualsToken (12, 15)"
        and r = "IdentifierNode (16, 25) ''undefined''"
        and ctx = ?ctx and c = nestedInLeft and cs = "[aLessThanNull]" and ctx' = ?ctx,
        folded nestedInLeft_def nestedExample_def]
  show ?thesis
    using inst by (simp add: own inner)
qed

text \<open>
  C7. Every finding of a scan is located at the span of an operand of a binary
  expression of the tree, the left or the right one, not at the span of the binary
  expression; its message is \<^verbatim>\<open>Comparison operand is null\<close> when that operand is the null
  literal and \<^verbatim>\<open>Comparison operand is undefined\<close> when it is the identifier
  \<^verbatim>\<open>undefined\<close>.
\<close>

theorem finding_location_and_message:
  assumes "f \<in> set (applyWithFunction sf walk opts)"
  shows "\<exists>n x. n \<in> set (descendants sf) \<and> isBinaryExpression n \<and> (x = left n \<or> x = right n) \<and>
     location f = span x \<and>
     ((kind x = NullKeyword \<and> message f = ''Comparison operand is null'') \<or>
      (isIdentifier x \<and> text_of x = ''undefined'' \<and>
       message f = ''Comparison operand is undefined''))"
proof -
  from assms obtain n where n: "n \<in> set (descendants sf)" and f: "f \<in> set (expectedAt opts n)"
    by (auto simp: scan_descendants)
  from f obtain sp l opr r where bin: "n = BinaryExpressionNode sp l opr r"
    by (cases n) (simp_all add: expectedAt_def)
  from f bin obtain x where x: "x = l \<or> x = r" "operandInvalid opts x" "f = findingAt x"
    by (auto simp: expectedAt_binary split: if_splits)
  have "(kind x = NullKeyword \<and> message f = ''Comparison operand is null'') \<or>
      (isIdentifier x \<and> text_of x = ''undefined'' \<and> message f = ''Comparison operand is undefined'')"
  proof (cases "isNullLiteral x")
    case True
    then show ?thesis by (simp add: x(3) findingAt_def isNullLiteral_def)
  next
    case False
    with x(2) have "isUndefinedIdentifier x" by (simp add: operandInvalid_def)
    with False show ?thesis by (simp add: x(3) findingAt_def isUndefinedIdentifier_def)
  qed
  moreover have "location f = span x" by (simp add: x(3) findingAt_def)
  ultimately show ?thesis
    using n bin x(1) by (intro exI [of _ n] exI [of _ x]) (auto simp: isBinaryExpression_def)
qed

theorem finding_location_and_message_witness:
  "\<lparr>location = (6, 10), message = ''Comparison operand is null''\<rparr>
     \<in> set (applyWithFunction (program nestedExample) walk defaultOptions)
   \<and> (\<exists>n x. n \<in> set (descendants (program nestedExample)) \<and> isBinaryExpression n \<and>
        (x = left n \<or> x = right n) \<and> span x = (6, 10) \<and> kind x = NullKeyword)"
proof -
  have mem: "\<lparr>location = (6, 10), message = ''Comparison operand is null''\<rparr>
      \<in> set (applyWithFunction (program nestedExample) walk defaultOptions)"
    by (simp add: eval_scan nestedExample_def)
  from finding_location_and_message [OF mem]
  have "\<exists>n x. n \<in> set (descendants (program nestedExample)) \<and> isBinaryExpression n \<and>
        (x = left n \<or> x = right n) \<and> span x = (6, 10) \<and> kind x = NullKeyword"
    by (simp add: eq_commute [of "(6, 10)"])
  with mem show ?thesis by blast
qed

text \<open>
  C8. The walk carries no state from one run to the next: on a context that already
  holds any findings it appends exactly the findings of a fresh scan of the same file
  under the same options and changes neither the file nor the options, so a second
  run on the context left by the first appends the same findings again, in the same
  order. A scan through the rule depends on the rule arguments only through the
  presence of the two option strings.
\<close>

theorem walk_repeatable:
  "snd (walk \<lparr>sourceFile = sf, options = opts, failures = fs\<rparr>) =
     \<lparr>sourceFile = sf, options = opts, failures = fs @ applyWithFunction sf walk opts\<rparr>
   \<and> snd (walk (snd (walk \<lparr>sourceFile = sf, options = opts, failures = fs\<rparr>))) =
     \<lparr>sourceFile = sf, options = opts,
      failures = fs @ applyWithFunction sf walk opts @ applyWithFunction sf walk opts\<rparr>
   \<and> apply_rule rule sf =
     applyWithFunction sf walk
       \<lparr>allowNull = (OPTION_ALLOW_NULL_CHECK \<in> set (ruleArguments rule)),
        allowUndefined = (OPTION_ALLOW_UNDEFINED_CHECK \<in> set (ruleArguments rule))\<rparr>"
  by (simp add: walk_descendants scan_descendants appendFailures_def apply_rule_def indexOf_member)

theorem walk_repeatable_witness:
  "snd (walk \<lparr>sourceFile = program nullEqualsUndefined, options = defaultOptions,
          failures = [\<lparr>location = (0, 0), message = ''earlier''\<rparr>]\<rparr>) =
     \<lparr>sourceFile = program nullEqualsUndefined, options = defaultOptions,
      failures = [\<lparr>location = (0, 0), message = ''earlier''\<rparr>,
        \<lparr>location = (0, 4), message = ''Comparison operand is null''\<rparr>,
        \<lparr>location = (8, 17), message = ''Comparison operand is undefined''\<rparr>]\<rparr>
   \<and> snd (walk (snd (walk \<lparr>sourceFile = program nullEqualsUndefined, options = defaultOptions,
          failures = [\<lparr>location = (0, 0), message = ''earlier''\<rparr>]\<rparr>))) =
     \<lparr>sourceFile = program nullEqualsUndefined, options = defaultOptions,
      failures = [\<lparr>location = (0, 0), message = ''earlier''\<rparr>,
        \<lparr>location = (0, 4), message = ''Comparison operand is null''\<rparr>,
        \<lparr>location = (8, 17), message = ''Comparison operand is undefined''\<rparr>,
        \<lparr>location = (0, 4), message = ''Comparison operand is null''\<rparr>,
        \<lparr>location = (8, 17), message = ''Comparison operand is undefined''\<rparr>]\<rparr>
   \<and> apply_rule \<lparr>ruleArguments = [''allow-null-check'']\<rparr> (program nullEqualsUndefined) =
     [\<lparr>location = (8, 17), message = ''Comparison operand is undefined''\<rparr>]"
proof -
  have scan: "applyWithFunction (program nullEqualsUndefined) walk defaultOptions =
      [\<lparr>location = (0, 4), message = ''Comparison operand is null''\<rparr>,
       \<lparr>location = (8, 17), message = ''Comparison operand is undefined''\<rparr>]"
    by (simp add: eval_scan nullEqualsUndefined_def)
  have scan': "applyWithFunction (program nullEqualsUndefined) walk
        \<lparr>allowNull = True, allowUndefined = False\<rparr> =
      [\<lparr>location = (8, 17), message = ''Comparison operand is undefined''\<rparr>]"
    by (simp add: eval_scan nullEqualsUndefined_def)
  note inst = walk_repeatable [of "program nullEqualsUndefined" defaultOptions
      "[\<lparr>location = (0, 0), message = ''earlier''\<rparr>]" "\<lparr>ruleArguments = [''allow-null-check'']\<rparr>"]
  have once: "snd (walk \<lparr>sourceFile = program nullEqualsUndefined, options = defaultOptions,
          failures = [\<lparr>location = (0, 0), message = ''earlier''\<rparr>]\<rparr>) =
     \<lparr>sourceFile = program nullEqualsUndefined, options = defaultOptions,
      failures = [\<lparr>location = (0, 0), message = ''earlier''\<rparr>,
        \<lparr>location = (0, 4), message = ''Comparison operand is null''\<rparr>,
        \<lparr>location = (8, 17), message = ''Comparison operand is undefined''\<rparr>]\<rparr>"
    using inst [THEN conjunct1] by (simp add: scan)
  have twice: "snd (walk (snd (walk \<lparr>sourceFile = program nullEqualsUndefined, options = defaultOptions,
          failures = [\<lparr>location = (0, 0), message = ''earlier''\<rparr>]\<rparr>))) =
     \<lparr>sourceFile = program nullEqualsUndefined, options = defaultOptions,
      failures = [\<lparr>location = (0, 0), message = ''earlier''\<rparr>,
        \<lparr>location = (0, 4), message = ''Comparison operand is null''\<rparr>,
        \<lparr>location = (8, 17), message = ''Comparison operand is undefined''\<rparr>,
        \<lparr>location = (0, 4), message = ''Comparison operand is null''\<rparr>,
        \<lparr>location = (8, 17), message = ''Comparison operand is undefined''\<rparr>]\<rparr>"
    using inst [THEN conjunct2, THEN conjunct1] by (simp add: scan)
  have through_rule: "apply_rule \<lparr>ruleArguments = [''allow-null-check'']\<rparr> (program nullEqualsUndefined) =
     [\<lparr>location = (8, 17), message = ''Comparison operand is undefined''\<rparr>]"
    using inst [THEN conjunct2, THEN conjunct2]
    by (simp add: scan' OPTION_ALLOW_NULL_CHECK_def OPTION_ALLOW_UNDEFINED_CHECK_def)
  from once twice through_rule show ?thesis
    by blast
qed

text \<open>
  C9. For every source file the walk returns: the callback is a total function, its
  recursion descending to strictly smaller subtrees. The logged walk, started on a
  fresh context and an empty log, ends with the findings of the scan and with the
  descendants of the root in pre-order as its log, so the callback is called once on
  each node below the root and on nothing else; the number of calls is the size of the
  tree less the root, and there are at most two findings for each call.
\<close>

theorem walk_visits_each_node_once:
  "walk_logged (\<lparr>sourceFile = sf, options = opts, failures = []\<rparr>, []) =
     (None, \<lparr>sourceFile = sf, options = opts, failures = applyWithFunction sf walk opts\<rparr>,
      descendants sf)
   \<and> Suc (length (descendants sf)) = sourceFileSize sf
   \<and> length (applyWithFunction sf walk opts) \<le> 2 * length (descendants sf)"
proof (intro conjI)
  show "walk_logged (\<lparr>sourceFile = sf, options = opts, failures = []\<rparr>, []) =
     (None, \<lparr>sourceFile = sf, options = opts, failures = applyWithFunction sf walk opts\<rparr>,
      descendants sf)"
  proof (cases sf)
    case (SourceFile sp cs)
    have logged: "forEachNode cb_logged cs (ctx, []) =
        (None, snd (forEachNode cb cs ctx), [] @ concat (map preorder cs))" for ctx
      by (rule forEachNode_logged) (rule cb_logged_erase)
    have plain: "forEachNode cb cs \<lparr>sourceFile = sf, options = opts, failures = []\<rparr> =
        (None, \<lparr>sourceFile = sf, options = opts, failures = applyWithFunction sf walk opts\<rparr>)"
      using walk_descendants [of "\<lparr>sourceFile = sf, options = opts, failures = []\<rparr>"]
      by (simp add: SourceFile walk_def forEachChild_def scan_descendants appendFailures_def)
    show ?thesis
      using plain by (simp add: SourceFile walk_logged_def forEachChild_def logged)
  qed
  show "Suc (length (descendants sf)) = sourceFileSize sf"
    by (rule length_descendants)
  show "length (applyWithFunction sf walk opts) \<le> 2 * length (descendants sf)"
    unfolding scan_descendants by (rule length_concat_bound) (rule length_expectedAt)
qed

theorem walk_visits_each_node_once_witness:
  "walk_logged (\<lparr>sourceFile = program nullEqualsUndefined, options = defaultOptions, failures = []\<rparr>, []) =
     (None,
      \<lparr>sourceFile = program nullEqualsUndefined, options = defaultOptions,
       failures = [\<lparr>location = (0, 4), message = ''Comparison operand is null''\<rparr>,
         \<lparr>location = (8, 17), message = ''Comparison operand is undefined''\<rparr>]\<rparr>,
      [OtherNode ExpressionStatement (0, 17) [nullEqualsUndefined],
       nullEqualsUndefined,
       TokenNode NullKeyword (0, 4),
       TokenNode EqualsEqualsToken (5, 7),
       IdentifierNode (8, 17) ''undefined'',
       TokenNode EndOfFileToken (17, 17)])
   \<and> sourceFileSize (program nullEqualsUndefined) = 7"
proof -
  have scan: "applyWithFunction (program nullEqualsUndefined) walk defaultOptions =
      [\<lparr>location = (0, 4), message = ''Comparison operand is null''\<rparr>,
       \<lparr>location = (8, 17), message = ''Comparison operand is undefined''\<rparr>]"
    by (simp add: eval_scan nullEqualsUndefined_def)
  have ds: "descendants (program nullEqualsUndefined) =
      [OtherNode ExpressionStatement (0, 17) [nullEqualsUndefined],
       nullEqualsUndefined,
       TokenNode NullKeyword (0, 4),
       TokenNode EqualsEqualsToken (5, 7),
       IdentifierNode (8, 17) ''undefined'',
       TokenNode EndOfFileToken (17, 17)]"
    by (simp add: program_def nullEqualsUndefined_def)
  show ?thesis
    using walk_visits_each_node_once [of "program nullEqualsUndefined" defaultOptions]
    unfolding scan ds by simp
qed

text \<open>
  C10. Setting an allowance flag only removes findings. For every source file the scan
  with \<open>allowNull\<close> true (and \<open>allowUndefined\<close> false) is the scan with both flags false
  without the findings on null-literal operands, and the scan with \<open>allowUndefined\<close>
  true (and \<open>allowNull\<close> false) is the scan with both flags false without the findings
  on operands that are the identifier \<^verbatim>\<open>undefined\<close>; the remaining findings are the same
  and in the same order. The removed findings are those with the message for null,
  respectively for undefined.
\<close>

theorem allowance_flag_only_removes_findings:
  "applyWithFunction sf walk defaultOptions =
     map (findingAt \<circ> snd) (filter (reportable defaultOptions) (operandOccurrences sf))
   \<and> applyWithFunction sf walk \<lparr>allowNull = True, allowUndefined = False\<rparr> =
     map (findingAt \<circ> snd)
       (filter (\<lambda>p. \<not> isNullLiteral (snd p))
          (filter (reportable defaultOptions) (operandOccurrences sf)))
   \<and> applyWithFunction sf walk \<lparr>allowNull = False, allowUndefined = True\<rparr> =
     map (findingAt \<circ> snd)
       (filter (\<lambda>p. \<not> isUndefinedIdentifier (snd p))
          (filter (reportable defaultOptions) (operandOccurrences sf)))
   \<and> applyWithFunction sf walk \<lparr>allowNull = True, allowUndefined = False\<rparr> =
     filter (\<lambda>f. message f \<noteq> ''Comparison operand is null'')
       (applyWithFunction sf walk defaultOptions)
   \<and> applyWithFunction sf walk \<lparr>allowNull = False, allowUndefined = True\<rparr> =
     filter (\<lambda>f. message f \<noteq> ''Comparison operand is undefined'')
       (applyWithFunction sf walk defaultOptions)"
proof (intro conjI)
  have occ: "applyWithFunction sf walk opts =
      map (findingAt \<circ> snd) (filter (reportable opts) (operandOccurrences sf))" for opts
    by (simp only: scan_descendants expectedAt_occurrences operandOccurrences_def)
  have "expectedAt \<lparr>allowNull = True, allowUndefined = False\<rparr> =
      (\<lambda>n. filter (\<lambda>f. message f \<noteq> ''Comparison operand is null'') (expectedAt defaultOptions n))"
    and "expectedAt \<lparr>allowNull = False, allowUndefined = True\<rparr> =
      (\<lambda>n. filter (\<lambda>f. message f \<noteq> ''Comparison operand is undefined'') (expectedAt defaultOptions n))"
    by (rule ext, rule expectedAt_allowNull, rule ext, rule expectedAt_allowUndefined)
  then show "applyWithFunction sf walk \<lparr>allowNull = True, allowUndefined = False\<rparr> =
     filter (\<lambda>f. message f \<noteq> ''Comparison operand is null'')
       (applyWithFunction sf walk defaultOptions)"
    and "applyWithFunction sf walk \<lparr>allowNull = False, allowUndefined = True\<rparr> =
     filter (\<lambda>f. message f \<noteq> ''Comparison operand is undefined'')
       (applyWithFunction sf walk defaultOptions)"
    by (simp_all add: scan_descendants filter_concat comp_def)
  show "applyWithFunction sf walk \<lparr>allowNull = True, allowUndefined = False\<rparr> =
     map (findingAt \<circ> snd)
       (filter (\<lambda>p. \<not> isNullLiteral (snd p))
          (filter (reportable defaultOptions) (operandOccurrences sf)))"
    by (simp only: occ filter_filter reportable_allowNull)
  show "applyWithFunction sf walk \<lparr>allowNull = False, allowUndefined = True\<rparr> =
     map (findingAt \<circ> snd)
       (filter (\<lambda>p. \<not> isUndefinedIdentifier (snd p))
          (filter (reportable defaultOptions) (operandOccurrences sf)))"
    by (simp only: occ filter_filter reportable_allowUndefined)
  show "applyWithFunction sf walk defaultOptions =
     map (findingAt \<circ> snd) (filter (reportable defaultOptions) (operandOccurrences sf))"
    by (rule occ)
qed

theorem allowance_flag_only_removes_findings_witness:
  "applyWithFunction (program nestedExample) walk defaultOptions =
     [\<lparr>location = (16, 25), message = ''Comparison operand is undefined''\<rparr>,
      \<lparr>location = (6, 10), message = ''Comparison operand is null''\<rparr>]
   \<and> applyWithFunction (program nestedExample) walk \<lparr>allowNull = True, allowUndefined = False\<rparr> =
     [\<lparr>location = (16, 25), message = ''Comparison operand is undefined''\<rparr>]
   \<and> applyWithFunction (program nestedExample) walk \<lparr>allowNull = False, allowUndefined = True\<rparr> =
     [\<lparr>location = (6, 10), message = ''Comparison operand is null''\<rparr>]"
proof -
  have scan: "applyWithFunction (program nestedExample) walk defaultOptions =
     [\<lparr>location = (16, 25), message = ''Comparison operand is undefined''\<rparr>,
      \<lparr>location = (6, 10), message = ''Comparison operand is null''\<rparr>]"
    by (simp add: eval_scan nestedExample_def)
  have "applyWithFunction (program nestedExample) walk \<lparr>allowNull = True, allowUndefined = False\<rparr> =
      filter (\<lambda>f. message f \<noteq> ''Comparison operand is null'')
        (applyWithFunction (program nestedExample) walk defaultOptions)"
    and "applyWithFunction (program nestedExample) walk \<lparr>allowNull = False, allowUndefined = True\<rparr> =
      filter (\<lambda>f. message f \<noteq> ''Comparison operand is undefined'')
        (applyWithFunction (program nestedExample) walk defaultOptions)"
    using allowance_flag_only_removes_findings [of "program nestedExample"] by blast+
  then show ?thesis
    unfolding scan by simp
qed

end
